theory Spec2Isabelle
  imports Main
begin

section \<open>Query filter backends of drf\_addons\_plus/filters.py\<close>

text \<open>
  The module defines two filter backends, \<open>ConditionalFilter\<close> and \<open>FieldsFilter\<close>.
  Each reads query parameters of a request, builds \<open>Q\<close> objects and hands them to
  \<open>queryset.filter\<close>. The embedding keeps the Python control flow: every raise is an
  \<open>Inl\<close> of the result type, every loop a recursion over the list it iterates.
  Strings are text of code points below 256 (one \<open>char\<close> per Python character).
\<close>

subsection \<open>Errors\<close>

datatype error =
    ImproperlyConfigured string
  | IndexError
  | TypeError
  | ValidationError
  | FieldError

subsection \<open>Python string operations used by the module\<close>

text \<open>\<open>str.isspace\<close> on one character: TAB..CR, FS..US, the blank, NEL (U+0085) and
  the no-break space (U+00A0).\<close>

definition is_space :: "char \<Rightarrow> bool" where
  "is_space c =
     (let n = (of_char c :: nat)
      in (9 \<le> n \<and> n \<le> 13) \<or> (28 \<le> n \<and> n \<le> 32) \<or> n = 133 \<or> n = 160)"

text \<open>\<open>s.strip()\<close>\<close>

definition strip :: "string \<Rightarrow> string" where
  "strip s = rev (dropWhile is_space (rev (dropWhile is_space s)))"

text \<open>\<open>s.split(',')\<close>: always at least one piece, empty pieces are kept.\<close>

fun split_comma_acc :: "string \<Rightarrow> string \<Rightarrow> string list" where
  "split_comma_acc acc [] = [rev acc]"
| "split_comma_acc acc (c # cs) =
     (if c = CHR '','' then rev acc # split_comma_acc [] cs
      else split_comma_acc (c # acc) cs)"

definition split_comma :: "string \<Rightarrow> string list" where
  "split_comma s = split_comma_acc [] s"

text \<open>\<open>LOOKUP_SEP\<close> of django.db.models.constants, and \<open>s.split(LOOKUP_SEP)\<close>:
  leftmost, non-overlapping occurrences of the two underscores.\<close>

definition LOOKUP_SEP :: string where
  "LOOKUP_SEP = ''__''"

fun split_lookup_sep_acc :: "string \<Rightarrow> string \<Rightarrow> string list" where
  "split_lookup_sep_acc acc [] = [rev acc]"
| "split_lookup_sep_acc acc [c] = [rev (c # acc)]"
| "split_lookup_sep_acc acc (c # d # cs) =
     (if c = CHR ''_'' \<and> d = CHR ''_'' then rev acc # split_lookup_sep_acc [] cs
      else split_lookup_sep_acc (c # acc) (d # cs))"

definition split_lookup_sep :: "string \<Rightarrow> string list" where
  "split_lookup_sep s = split_lookup_sep_acc [] s"

text \<open>\<open>s.replace('.', '__')\<close>\<close>

definition replace_dot :: "string \<Rightarrow> string" where
  "replace_dot s = concat (map (\<lambda>c. if c = CHR ''.'' then LOOKUP_SEP else [c]) s)"

text \<open>\<open>s.title()\<close>, for the letters of ASCII: the first letter of every run of
  letters in upper case, the other letters of the run in lower case. It is used for
  the labels of annotations only.\<close>

definition is_lower :: "char \<Rightarrow> bool" where
  "is_lower c = (let n = (of_char c :: nat) in 97 \<le> n \<and> n \<le> 122)"

definition is_upper :: "char \<Rightarrow> bool" where
  "is_upper c = (let n = (of_char c :: nat) in 65 \<le> n \<and> n \<le> 90)"

definition to_upper :: "char \<Rightarrow> char" where
  "to_upper c = (if is_lower c then char_of ((of_char c :: nat) - 32) else c)"

definition to_lower :: "char \<Rightarrow> char" where
  "to_lower c = (if is_upper c then char_of ((of_char c :: nat) + 32) else c)"

fun title_from :: "bool \<Rightarrow> string \<Rightarrow> string" where
  "title_from prev [] = []"
| "title_from prev (c # cs) =
     (if is_lower c then (if prev then c else to_upper c) # title_from True cs
      else if is_upper c then (if prev then to_lower c else c) # title_from True cs
      else c # title_from False cs)"

definition title :: "string \<Rightarrow> string" where
  "title s = title_from False s"

text \<open>\<open>functools.reduce(f, xs)\<close> without an initial value: a left fold, and a
  \<open>TypeError\<close> on an empty sequence.\<close>

definition reduce :: "('a \<Rightarrow> 'a \<Rightarrow> 'a) \<Rightarrow> 'a list \<Rightarrow> error + 'a" where
  "reduce f xs = (case xs of [] \<Rightarrow> Inl TypeError | x # rest \<Rightarrow> Inr (foldl f x rest))"

text \<open>A list of computations run in order, stopping at the first raise.\<close>

fun collect :: "(error + 'a) list \<Rightarrow> error + 'a list" where
  "collect [] = Inr []"
| "collect (r # rs) =
     (case r of Inl e \<Rightarrow> Inl e
      | Inr x \<Rightarrow> (case collect rs of Inl e \<Rightarrow> Inl e | Inr xs \<Rightarrow> Inr (x # xs)))"

subsection \<open>The objects handed in by the framework\<close>

text \<open>The request: \<open>request.query_params.get(name)\<close> is \<open>None\<close> for an absent
  parameter.\<close>

record request =
  query_params :: "string \<rightharpoonup> string"

text \<open>\<open>models.Q\<close> objects. \<open>Q_kwargs k v\<close> is \<open>Q(**{k: v})\<close>, \<open>Q_dict k v\<close> is
  \<open>Q({k: v})\<close> (the dictionary passed as the one positional argument), and \<open>Q_and\<close>,
  \<open>Q_or\<close> are \<open>operator.and_\<close> and \<open>operator.or_\<close> on two such objects.\<close>

datatype qvalue = VBool bool | VStr string

datatype q =
    Q_kwargs string qvalue
  | Q_dict string qvalue
  | Q_and q q
  | Q_or q q

text \<open>A model field as the module looks at it: \<open>field.get_lookup(name)\<close> is not
  \<open>None\<close>, and, when the field has \<open>path_infos\<close>, the model that
  \<open>field.path_infos[-1].to_opts\<close> belongs to.\<close>

record model_field =
  get_lookup :: "string \<Rightarrow> bool"
  path_infos_to :: "string option"

text \<open>A model class: the names \<open>attr\<close> of \<open>dir(model_class)\<close> whose attribute is a
  \<open>property\<close>, the pairs \<open>(field.name, field.verbose_name)\<close> of \<open>_meta.fields\<close>,
  \<open>_meta.pk.name\<close>, and \<open>_meta.get_field\<close> (\<open>None\<close> stands for
  \<open>FieldDoesNotExist\<close>). Models are referred to by name, so that relations may be
  cyclic; \<open>models\<close> maps each name to its class.\<close>

record model_class =
  property_attrs :: "string list"
  meta_fields :: "(string \<times> string) list"
  meta_pk_name :: string
  meta_get_field :: "string \<Rightarrow> model_field option"

type_synonym models = "string \<Rightarrow> model_class"

text \<open>A queryset: its model, the keys of \<open>queryset.query.annotations\<close> in order, and
  the \<open>Q\<close> objects given to \<open>filter\<close> so far.\<close>

record queryset =
  qs_model :: string
  qs_annotations :: "string list"
  qs_filters :: "q list"

definition qs_filter :: "queryset \<Rightarrow> q \<Rightarrow> queryset" where
  "qs_filter queryset cond = queryset\<lparr>qs_filters := qs_filters queryset @ [cond]\<rparr>"

text \<open>\<open>queryset.filter(cond)\<close>. Django adds the condition child by child and raises
  \<open>FieldError\<close> (cannot parse keyword query as dict) at a child that is a dictionary;
  otherwise the result is the queryset with the condition recorded. Whether a keyword
  names a field of the model is not looked at here.\<close>

fun has_dict_child :: "q \<Rightarrow> bool" where
  "has_dict_child (Q_kwargs k v) = False"
| "has_dict_child (Q_dict k v) = True"
| "has_dict_child (Q_and a b) = (has_dict_child a \<or> has_dict_child b)"
| "has_dict_child (Q_or a b) = (has_dict_child a \<or> has_dict_child b)"

definition queryset_filter :: "queryset \<Rightarrow> q \<Rightarrow> error + queryset" where
  "queryset_filter queryset cond =
     (if has_dict_child cond then Inl FieldError else Inr (qs_filter queryset cond))"

text \<open>Labels of permitted fields: a serializer field's \<open>label\<close> (possibly \<open>None\<close>),
  a verbose name, or the list \<open>key.title().split('__')\<close> of an annotation.\<close>

datatype label = NoLabel | Label string | LabelParts "string list"

text \<open>A serializer field and the \<open>fields.items()\<close> of an instantiated serializer.\<close>

record serializer_field =
  source :: string
  field_label :: label
  write_only :: bool

type_synonym serializer = "(string \<times> serializer_field) list"

text \<open>The values of the \<open>conditional_fields\<close> attribute other than \<open>None\<close>: a
  string (iterated character by character unless it is \<open>'__all__'\<close>), or a sequence
  whose items are strings or (name, label) pairs.\<close>

datatype fields_item = ItemStr string | ItemPair string label

datatype fields_attr = FieldsStr string | FieldsList "fields_item list"

text \<open>The view's \<open>conditional\<close> attribute other than \<open>None\<close>.\<close>

datatype conditional_attr = CondStr string | CondTuple "string list"

text \<open>What calling \<open>view.get_serializer_class()\<close> does.\<close>

datatype serializer_class_result = Raises_AssertionError | Returns "serializer option"

text \<open>The view. \<open>view_conditional\<close> is \<open>getattr(view, 'conditional', None)\<close>;
  \<open>view_conditional_fields\<close> is \<open>None\<close> when the view has no such attribute and
  \<open>Some None\<close> when the attribute is \<open>None\<close>; \<open>view_get_serializer_class\<close> is
  \<open>None\<close> when the view has no such method; \<open>view_serializer_class\<close> and
  \<open>view_filter_fields\<close> are the \<open>getattr\<close> with default \<open>None\<close>.\<close>

record view =
  view_conditional :: "conditional_attr option"
  view_conditional_fields :: "fields_attr option option"
  view_get_serializer_class :: "serializer_class_result option"
  view_serializer_class :: "serializer option"
  view_filter_fields :: "string list option"

subsection \<open>ConditionalFilter\<close>

text \<open>The class attributes a subclass may override, and the class name.\<close>

record conditional_filter =
  class_name :: string
  conditional_param :: string
  conditional_fields :: "fields_attr option"

definition ConditionalFilter :: conditional_filter where
  "ConditionalFilter =
     \<lparr>class_name = ''ConditionalFilter'', conditional_param = ''conditional'',
      conditional_fields = None\<rparr>"

definition get_default_conditional :: "view \<Rightarrow> string list option" where
  "get_default_conditional v =
     (case view_conditional v of
        None \<Rightarrow> None
      | Some (CondStr s) \<Rightarrow> Some [s]
      | Some (CondTuple t) \<Rightarrow> Some t)"

definition improperly_configured_msg :: "string \<Rightarrow> string" where
  "improperly_configured_msg name =
     ''Cannot use '' @ name @ '' on a view which does not have either a '' @
     [CHR 0x27] @ ''serializer_class'' @ [CHR 0x27] @ '', an overriding '' @
     [CHR 0x27] @ ''get_serializer_class'' @ [CHR 0x27] @ '' or '' @
     [CHR 0x27] @ ''conditional_fields'' @ [CHR 0x27] @ '' attribute.''"

definition resolve_serializer_class :: "view \<Rightarrow> serializer option" where
  "resolve_serializer_class v =
     (case view_get_serializer_class v of
        Some Raises_AssertionError \<Rightarrow> None
      | Some (Returns sc) \<Rightarrow> sc
      | None \<Rightarrow> view_serializer_class v)"

definition model_property_names :: "model_class \<Rightarrow> string list" where
  "model_property_names mc = filter (\<lambda>attr. attr \<noteq> ''pk'') (property_attrs mc)"

definition serializer_field_allowed :: "string list \<Rightarrow> serializer_field \<Rightarrow> bool" where
  "serializer_field_allowed props f =
     (\<not> write_only f \<and> \<not> source f = ''*'' \<and> source f \<notin> set props)"

definition serializer_field_entry :: "string \<times> serializer_field \<Rightarrow> string \<times> label" where
  "serializer_field_entry nf =
     (let src = replace_dot (source (snd nf))
      in (if src = [] then fst nf else src, field_label (snd nf)))"

definition get_default_valid_fields ::
  "conditional_filter \<Rightarrow> models \<Rightarrow> queryset \<Rightarrow> view \<Rightarrow> error + (string \<times> label) list" where
  "get_default_valid_fields flt ms queryset v =
     (case resolve_serializer_class v of
        None \<Rightarrow> Inl (ImproperlyConfigured (improperly_configured_msg (class_name flt)))
      | Some serializer_class \<Rightarrow>
          Inr (map serializer_field_entry
                 (filter (\<lambda>nf. serializer_field_allowed
                                  (model_property_names (ms (qs_model queryset))) (snd nf))
                    serializer_class)))"

definition fields_item_entry :: "fields_item \<Rightarrow> string \<times> label" where
  "fields_item_entry item =
     (case item of ItemStr s \<Rightarrow> (s, Label s) | ItemPair n l \<Rightarrow> (n, l))"

definition get_valid_fields ::
  "conditional_filter \<Rightarrow> models \<Rightarrow> queryset \<Rightarrow> view \<Rightarrow> error + (string \<times> label) list" where
  "get_valid_fields flt ms queryset v =
     (let valid_fields =
            (case view_conditional_fields v of
               None \<Rightarrow> conditional_fields flt
             | Some a \<Rightarrow> a)
      in case valid_fields of
           None \<Rightarrow> get_default_valid_fields flt ms queryset v
         | Some (FieldsStr s) \<Rightarrow>
             (if s = ''__all__''
              then Inr (map (\<lambda>(name, verbose_name). (name, Label verbose_name))
                          (meta_fields (ms (qs_model queryset)))
                        @ map (\<lambda>key. (key, LabelParts (split_lookup_sep (title key))))
                            (qs_annotations queryset))
              else Inr (map (\<lambda>c. ([c], Label [c])) s))
         | Some (FieldsList items) \<Rightarrow> Inr (map fields_item_entry items))"

definition term_valid :: "string list \<Rightarrow> string \<Rightarrow> bool" where
  "term_valid valid_fields term =
     (let term' = (case term of c # rest \<Rightarrow> if c = CHR ''-'' then rest else term | [] \<Rightarrow> term)
      in term' \<in> set valid_fields)"

definition remove_invalid_fields ::
  "conditional_filter \<Rightarrow> models \<Rightarrow> queryset \<Rightarrow> string list \<Rightarrow> view \<Rightarrow> error + string list" where
  "remove_invalid_fields flt ms queryset fields' v =
     (case get_valid_fields flt ms queryset v of
        Inl e \<Rightarrow> Inl e
      | Inr vf \<Rightarrow> Inr (filter (term_valid (map fst vf)) fields'))"

definition get_conditional ::
  "conditional_filter \<Rightarrow> models \<Rightarrow> request \<Rightarrow> queryset \<Rightarrow> view \<Rightarrow> error + string list option" where
  "get_conditional flt ms req queryset v =
     (case query_params req (conditional_param flt) of
        None \<Rightarrow> Inr (get_default_conditional v)
      | Some params \<Rightarrow>
          (if params = [] then Inr (get_default_conditional v)
           else case remove_invalid_fields flt ms queryset
                       (map strip (split_comma params)) v of
                  Inl e \<Rightarrow> Inl e
                | Inr conditional \<Rightarrow>
                    (if conditional \<noteq> [] then Inr (Some conditional)
                     else Inr (get_default_conditional v))))"

text \<open>One pass of the loop body of \<open>filter_queryset\<close>: \<open>condition[0]\<close> raises
  \<open>IndexError\<close> on the empty string.\<close>

fun make_condition :: "string \<Rightarrow> error + q" where
  "make_condition [] = Inl IndexError"
| "make_condition (c # rest) =
     (if c = CHR ''-'' then Inr (Q_kwargs (rest @ ''__exact'') (VBool False))
      else Inr (Q_kwargs ((c # rest) @ ''__exact'') (VBool True)))"

definition ConditionalFilter_filter_queryset ::
  "conditional_filter \<Rightarrow> models \<Rightarrow> request \<Rightarrow> queryset \<Rightarrow> view \<Rightarrow> error + queryset" where
  "ConditionalFilter_filter_queryset flt ms req queryset v =
     (case get_conditional flt ms req queryset v of
        Inl e \<Rightarrow> Inl e
      | Inr None \<Rightarrow> Inr queryset
      | Inr (Some conditional) \<Rightarrow>
          (if conditional = [] then Inr queryset
           else case collect (map make_condition conditional) of
                  Inl e \<Rightarrow> Inl e
                | Inr conditions \<Rightarrow>
                    (case reduce Q_and conditions of
                       Inl e \<Rightarrow> Inl e
                     | Inr cond \<Rightarrow> queryset_filter queryset cond)))"

subsection \<open>FieldsFilter\<close>

text \<open>The two calls into rest\_framework made by \<open>get_search_terms\<close>:
  \<open>CharField(trim_whitespace=False, allow_blank=True).run_validation\<close>, which returns
  the cleaned value or raises, and \<open>search_smart_split\<close>, which cuts the cleaned
  value into terms. They are parameters of the model.\<close>

record rest_framework =
  run_validation :: "string \<Rightarrow> error + string"
  search_smart_split :: "string \<Rightarrow> string list"

definition lookup_prefixes :: "char \<rightharpoonup> string" where
  "lookup_prefixes =
     map_of [(CHR ''^'', ''istartswith''), (CHR ''='', ''iexact''),
             (CHR ''@'', ''search''), (CHR ''$'', ''iregex'')]"

definition get_search_fields :: "view \<Rightarrow> request \<Rightarrow> string list option" where
  "get_search_fields v req = view_filter_fields v"

definition get_search_terms :: "rest_framework \<Rightarrow> request \<Rightarrow> string \<Rightarrow> error + string list" where
  "get_search_terms drf req field_param =
     (let val = (case query_params req field_param of None \<Rightarrow> [] | Some x \<Rightarrow> x)
      in case run_validation drf val of
           Inl e \<Rightarrow> Inl e
         | Inr cleaned_value \<Rightarrow> Inr (search_smart_split drf cleaned_value))"

text \<open>The loop of \<open>construct_search\<close> over the path parts, with the loop variables
  \<open>opts\<close> (a model name) and \<open>prev_field\<close>. It is \<open>True\<close> when the loop leaves
  through \<open>return field_name\<close>, \<open>False\<close> when it runs to its end.\<close>

fun follow_path :: "models \<Rightarrow> string \<Rightarrow> model_field option \<Rightarrow> string list \<Rightarrow> bool" where
  "follow_path ms opts prev_field [] = False"
| "follow_path ms opts prev_field (p # ps) =
     (let path_part = (if p = ''pk'' then meta_pk_name (ms opts) else p)
      in case meta_get_field (ms opts) path_part of
           None \<Rightarrow>
             (case prev_field of
                None \<Rightarrow> follow_path ms opts prev_field ps
              | Some pf \<Rightarrow>
                  if get_lookup pf path_part then True
                  else follow_path ms opts prev_field ps)
         | Some field \<Rightarrow>
             follow_path ms
               (case path_infos_to field of None \<Rightarrow> opts | Some m \<Rightarrow> m)
               (Some field) ps)"

definition construct_search :: "models \<Rightarrow> string \<Rightarrow> queryset \<Rightarrow> error + string" where
  "construct_search ms field_name queryset =
     (case field_name of
        [] \<Rightarrow> Inl IndexError
      | c # rest \<Rightarrow>
          (case lookup_prefixes c of
             Some lookup \<Rightarrow> Inr (rest @ LOOKUP_SEP @ lookup)
           | None \<Rightarrow>
               if follow_path ms (qs_model queryset) None (split_lookup_sep field_name)
               then Inr field_name
               else Inr (field_name @ LOOKUP_SEP @ ''icontains'')))"

text \<open>The body of the loop of \<open>filter_queryset\<close> for one search field.\<close>

definition search_field_step ::
  "rest_framework \<Rightarrow> models \<Rightarrow> request \<Rightarrow> string \<Rightarrow> queryset \<Rightarrow> error + queryset" where
  "search_field_step drf ms req field queryset =
     (case get_search_terms drf req field of
        Inl e \<Rightarrow> Inl e
      | Inr search_terms \<Rightarrow>
          (if search_terms = [] then Inr queryset
           else case construct_search ms field queryset of
                  Inl e \<Rightarrow> Inl e
                | Inr lookup \<Rightarrow>
                    (let orm_lookups = [lookup]
                     in case collect
                               (map (\<lambda>term. reduce Q_or
                                       (map (\<lambda>orm_lookup. Q_dict orm_lookup (VStr term))
                                          orm_lookups))
                                  search_terms) of
                          Inl e \<Rightarrow> Inl e
                        | Inr conditions \<Rightarrow>
                            (case reduce Q_and conditions of
                               Inl e \<Rightarrow> Inl e
                             | Inr cond \<Rightarrow> queryset_filter queryset cond))))"

fun search_fields_loop ::
  "rest_framework \<Rightarrow> models \<Rightarrow> request \<Rightarrow> string list \<Rightarrow> queryset \<Rightarrow> error + queryset" where
  "search_fields_loop drf ms req [] queryset = Inr queryset"
| "search_fields_loop drf ms req (field # rest) queryset =
     (case search_field_step drf ms req field queryset of
        Inl e \<Rightarrow> Inl e
      | Inr queryset' \<Rightarrow> search_fields_loop drf ms req rest queryset')"

definition FieldsFilter_filter_queryset ::
  "rest_framework \<Rightarrow> models \<Rightarrow> request \<Rightarrow> queryset \<Rightarrow> view \<Rightarrow> error + queryset" where
  "FieldsFilter_filter_queryset drf ms req queryset v =
     (case get_search_fields v req of
        None \<Rightarrow> Inr queryset
      | Some search_fields \<Rightarrow>
          (if search_fields = [] then Inr queryset
           else search_fields_loop drf ms req search_fields queryset))"

subsection \<open>Reading a combined condition\<close>

text \<open>A \<open>Q\<close> object built with \<open>&\<close> and \<open>|\<close> holds when its parts do; what a
  leaf means is left to the database layer and is the parameter \<open>atom\<close>.\<close>

fun q_holds :: "(q \<Rightarrow> bool) \<Rightarrow> q \<Rightarrow> bool" where
  "q_holds atom (Q_and a b) = (q_holds atom a \<and> q_holds atom b)"
| "q_holds atom (Q_or a b) = (q_holds atom a \<or> q_holds atom b)"
| "q_holds atom (Q_kwargs k v) = atom (Q_kwargs k v)"
| "q_holds atom (Q_dict k v) = atom (Q_dict k v)"

subsection \<open>A small application, for concrete runs\<close>

text \<open>The two rest\_framework calls on plain text: a value without a NUL character is
  valid and returned as it is, and a value without quotes and commas is cut at runs of
  white space.\<close>

fun plain_split_acc :: "string \<Rightarrow> string \<Rightarrow> string list" where
  "plain_split_acc acc [] = (if acc = [] then [] else [rev acc])"
| "plain_split_acc acc (c # cs) =
     (if is_space c then (if acc = [] then plain_split_acc [] cs
                          else rev acc # plain_split_acc [] cs)
      else plain_split_acc (c # acc) cs)"

definition drf_plain :: rest_framework where
  "drf_plain =
     \<lparr>run_validation = (\<lambda>v. if CHR 0x00 \<in> set v then Inl ValidationError else Inr v),
      search_smart_split = plain_split_acc []\<rparr>"

definition plain_field :: model_field where
  "plain_field =
     \<lparr>get_lookup = (\<lambda>n. n \<in> set [''exact'', ''iexact'', ''icontains'', ''istartswith'']),
      path_infos_to = None\<rparr>"

text \<open>An \<open>Item\<close> model with a \<open>full_name\<close> property and a relation \<open>owner\<close> to a
  \<open>User\<close> model, which has the reverse relation \<open>item\<close>.\<close>

definition item_model :: model_class where
  "item_model =
     \<lparr>property_attrs = [''full_name'', ''pk''],
      meta_fields = [(''id'', ''ID''), (''name'', ''name''), (''code'', ''code''),
                     (''active'', ''active''), (''verified'', ''verified''),
                     (''owner'', ''owner'')],
      meta_pk_name = ''id'',
      meta_get_field =
        map_of [(''id'', plain_field), (''name'', plain_field), (''code'', plain_field),
                (''active'', plain_field), (''verified'', plain_field),
                (''owner'', plain_field\<lparr>path_infos_to := Some ''User''\<rparr>)]\<rparr>"

definition user_model :: model_class where
  "user_model =
     \<lparr>property_attrs = [''pk''],
      meta_fields = [(''id'', ''ID''), (''username'', ''username'')],
      meta_pk_name = ''id'',
      meta_get_field =
        map_of [(''id'', plain_field), (''username'', plain_field),
                (''item'', plain_field\<lparr>path_infos_to := Some ''Item''\<rparr>)]\<rparr>"

definition example_models :: models where
  "example_models name = (if name = ''User'' then user_model else item_model)"

definition items :: queryset where
  "items = \<lparr>qs_model = ''Item'', qs_annotations = [''item_count''], qs_filters = []\<rparr>"

text \<open>A view that declares nothing.\<close>

definition bare_view :: view where
  "bare_view =
     \<lparr>view_conditional = None, view_conditional_fields = None,
      view_get_serializer_class = None, view_serializer_class = None,
      view_filter_fields = None\<rparr>"

text \<open>A view whose explicit allow-list is \<open>['active', 'verified']\<close>, and a
  serializer with a model property, a dotted source, a write-only field and a
  wildcard source among its fields.\<close>

definition flags_view :: view where
  "flags_view =
     bare_view\<lparr>view_conditional_fields :=
       Some (Some (FieldsList [ItemStr ''active'', ItemStr ''verified'']))\<rparr>"

definition full_name_field :: serializer_field where
  "full_name_field =
     \<lparr>source = ''full_name'', field_label = Label ''Full name'', write_only = False\<rparr>"

definition item_serializer :: serializer where
  "item_serializer =
     [(''name'', \<lparr>source = ''name'', field_label = Label ''Name'', write_only = False\<rparr>),
      (''full_name'', full_name_field),
      (''owner_name'',
         \<lparr>source = ''owner.username'', field_label = NoLabel, write_only = False\<rparr>),
      (''password'', \<lparr>source = ''password'', field_label = NoLabel, write_only = True\<rparr>),
      (''everything'', \<lparr>source = ''*'', field_label = NoLabel, write_only = False\<rparr>)]"

section \<open>Properties of FieldsFilter\<close>

lemma construct_search_model:
  "qs_model a = qs_model b \<Longrightarrow> construct_search ms f a = construct_search ms f b"
  by (simp add: construct_search_def)

text \<open>
  Claim C8. When the view configures no search fields (\<open>filter_fields\<close> is absent,
  \<open>None\<close> or empty), \<open>FieldsFilter.filter_queryset\<close> returns the input queryset
  unmodified, for every request and every queryset.
\<close>

theorem no_search_fields_identity:
  "view_filter_fields v = None \<or> view_filter_fields v = Some [] \<Longrightarrow>
   FieldsFilter_filter_queryset drf ms req queryset v = Inr queryset"
  by (auto simp: FieldsFilter_filter_queryset_def get_search_fields_def)

theorem no_search_fields_identity_witness:
  "FieldsFilter_filter_queryset drf_plain example_models
      \<lparr>query_params = [''name'' \<mapsto> ''foo bar'']\<rparr> items bare_view = Inr items
   \<and> FieldsFilter_filter_queryset drf_plain example_models
      \<lparr>query_params = [''name'' \<mapsto> ''foo bar'']\<rparr> items
      (bare_view\<lparr>view_filter_fields := Some []\<rparr>) = Inr items"
  using no_search_fields_identity
          [of bare_view drf_plain example_models
              "\<lparr>query_params = [''name'' \<mapsto> ''foo bar'']\<rparr>" items]
        no_search_fields_identity
          [of "bare_view\<lparr>view_filter_fields := Some []\<rparr>" drf_plain example_models
              "\<lparr>query_params = [''name'' \<mapsto> ''foo bar'']\<rparr>" items]
  by (simp add: bare_view_def)

text \<open>
  Claim C9. If the term list obtained for a configured search field is empty (the
  parameter is empty or holds white space only, so that splitting yields no term),
  the field adds no predicate: its pass through the loop body returns the queryset
  as it was, and the loop goes on as if the field were not there.
\<close>

theorem no_terms_no_predicate:
  "get_search_terms drf req field = Inr [] \<Longrightarrow>
   search_field_step drf ms req field queryset = Inr queryset \<and>
   search_fields_loop drf ms req (field # rest) queryset =
     search_fields_loop drf ms req rest queryset"
  by (simp add: search_field_step_def)

theorem no_terms_no_predicate_witness:
  "get_search_terms drf_plain \<lparr>query_params = [''name'' \<mapsto> ''   '']\<rparr> ''name'' = Inr [] \<and>
   search_field_step drf_plain example_models \<lparr>query_params = [''name'' \<mapsto> ''   '']\<rparr>
     ''name'' items = Inr items \<and>
   search_fields_loop drf_plain example_models \<lparr>query_params = [''name'' \<mapsto> ''   '']\<rparr>
     [''name'', ''^code''] items = Inr items"
proof -
  have terms: "get_search_terms drf_plain \<lparr>query_params = [''name'' \<mapsto> ''   '']\<rparr> ''name''
                 = Inr []"
    by (simp add: get_search_terms_def drf_plain_def is_space_def)
  have code_terms:
    "get_search_terms drf_plain \<lparr>query_params = [''name'' \<mapsto> ''   '']\<rparr> ''^code'' = Inr []"
    by (simp add: get_search_terms_def drf_plain_def)
  show ?thesis
    using terms
      no_terms_no_predicate [OF terms, of example_models items "[''^code'']"]
    by (simp add: search_field_step_def code_terms)
qed

text \<open>
  Claim C5. A field name that starts with one of \<open>^\<close>, \<open>=\<close>, \<open>@\<close>, \<open>$\<close> gets
  the fixed lookup of that prefix (\<open>istartswith\<close>, \<open>iexact\<close>, \<open>search\<close>,
  \<open>iregex\<close>) on the rest of the name, whatever the models and their relations are.
  A name whose first character is no such prefix, and whose path traversal does not
  leave through a valid lookup of the previous field, gets \<open>icontains\<close>.
\<close>

theorem construct_search_lookup:
  "construct_search ms (CHR ''^'' # name) queryset = Inr (name @ ''__istartswith'') \<and>
   construct_search ms (CHR ''='' # name) queryset = Inr (name @ ''__iexact'') \<and>
   construct_search ms (CHR ''@'' # name) queryset = Inr (name @ ''__search'') \<and>
   construct_search ms (CHR ''$'' # name) queryset = Inr (name @ ''__iregex'') \<and>
   (c \<notin> {CHR ''^'', CHR ''='', CHR ''@'', CHR ''$''} \<longrightarrow>
    \<not> follow_path ms (qs_model queryset) None (split_lookup_sep (c # name)) \<longrightarrow>
    construct_search ms (c # name) queryset = Inr ((c # name) @ ''__icontains''))"
  by (simp add: construct_search_def lookup_prefixes_def LOOKUP_SEP_def)

theorem construct_search_lookup_witness:
  "construct_search example_models ''^owner__username'' items
     = Inr ''owner__username__istartswith'' \<and>
   \<not> follow_path example_models (qs_model items) None (split_lookup_sep ''owner__username'') \<and>
   construct_search example_models ''owner__username'' items
     = Inr ''owner__username__icontains''"
proof -
  have walk: "\<not> follow_path example_models (qs_model items) None
                  (split_lookup_sep ''owner__username'')"
    by (simp add: split_lookup_sep_def items_def example_models_def item_model_def
          user_model_def plain_field_def)
  show ?thesis
    using walk
      construct_search_lookup [of example_models "''owner__username''" items "CHR ''o''"]
      construct_search_lookup [of example_models "''wner__username''" items "CHR ''o''"]
    by simp
qed

lemma collect_map_Inr: "collect (map (\<lambda>x. Inr (f x)) xs) = Inr (map f xs)"
  by (induction xs) simp_all

lemma has_dict_child_foldl_and:
  "has_dict_child (foldl Q_and c cs) = (has_dict_child c \<or> (\<exists>x\<in>set cs. has_dict_child x))"
  by (induction cs arbitrary: c) auto

lemma search_field_step_field_error:
  assumes "get_search_terms drf req f = Inr ts" and "ts \<noteq> []"
    and "construct_search ms f queryset = Inr lk"
  shows "search_field_step drf ms req f queryset = Inl FieldError"
proof -
  obtain t r where tr: "ts = t # r" using assms(2) by (cases ts) auto
  have "collect (map (\<lambda>term. reduce Q_or
                        (map (\<lambda>orm_lookup. Q_dict orm_lookup (VStr term)) [lk])) ts)
        = Inr (map (\<lambda>x. Q_dict lk (VStr x)) ts)"
    by (simp add: reduce_def collect_map_Inr)
  with assms tr show ?thesis
    by (simp add: search_field_step_def reduce_def queryset_filter_def
          has_dict_child_foldl_and)
qed

text \<open>
  Claim C1. The specification says that with search fields \<open>["name", "^code"]\<close> the
  query \<open>search=foo bar\<close> filters by \<open>(name icontains foo OR code istartswith foo)
  AND (name icontains bar OR code istartswith bar)\<close>. The code does not: it never reads
  the \<open>search\<close> parameter, so that request comes back unfiltered; and when the terms
  are given under the field names, the leaf \<open>Q({lookup: term})\<close> is a dictionary
  passed positionally and \<open>queryset.filter\<close> raises \<open>FieldError\<close>.
\<close>

theorem search_filter_failing_inputs:
  "FieldsFilter_filter_queryset drf_plain example_models
     \<lparr>query_params = [''search'' \<mapsto> ''foo bar'']\<rparr> items
     (bare_view\<lparr>view_filter_fields := Some [''name'', ''^code'']\<rparr>) = Inr items
   \<and> qs_filters items = []
   \<and> FieldsFilter_filter_queryset drf_plain example_models
     \<lparr>query_params = [''name'' \<mapsto> ''foo bar'', ''^code'' \<mapsto> ''foo'']\<rparr> items
     (bare_view\<lparr>view_filter_fields := Some [''name'', ''^code'']\<rparr>) = Inl FieldError"
proof -
  let ?v = "bare_view\<lparr>view_filter_fields := Some [''name'', ''^code'']\<rparr>"
  let ?req = "\<lparr>query_params = [''name'' \<mapsto> ''foo bar'', ''^code'' \<mapsto> ''foo'']\<rparr>"
  have one: "FieldsFilter_filter_queryset drf_plain example_models
     \<lparr>query_params = [''search'' \<mapsto> ''foo bar'']\<rparr> items ?v = Inr items"
    by (simp add: FieldsFilter_filter_queryset_def get_search_fields_def bare_view_def
        search_field_step_def get_search_terms_def drf_plain_def)
  have none: "qs_filters items = []"
    by (simp add: items_def)
  have terms: "get_search_terms drf_plain ?req ''name'' = Inr [''foo'', ''bar'']"
    by (simp add: get_search_terms_def drf_plain_def is_space_def)
  have lookup: "construct_search example_models ''name'' items = Inr ''name__icontains''"
    by (simp add: construct_search_def lookup_prefixes_def LOOKUP_SEP_def
          split_lookup_sep_def items_def example_models_def item_model_def plain_field_def)
  have "search_field_step drf_plain example_models ?req ''name'' items = Inl FieldError"
    using terms _ lookup by (rule search_field_step_field_error) simp
  then have two: "FieldsFilter_filter_queryset drf_plain example_models ?req items ?v
                    = Inl FieldError"
    by (simp add: FieldsFilter_filter_queryset_def get_search_fields_def)
  from one none two show ?thesis by (intro conjI)
qed

section \<open>Properties of ConditionalFilter\<close>

lemma make_condition_nonempty:
  "t \<noteq> [] \<Longrightarrow> make_condition t =
     Inr (if hd t = CHR ''-'' then Q_kwargs (tl t @ ''__exact'') (VBool False)
          else Q_kwargs (t @ ''__exact'') (VBool True))"
  by (cases t) simp_all

lemma collect_make_condition:
  "\<forall>t\<in>set ts. t \<noteq> [] \<Longrightarrow>
   collect (map make_condition ts) =
     Inr (map (\<lambda>t. if hd t = CHR ''-'' then Q_kwargs (tl t @ ''__exact'') (VBool False)
                    else Q_kwargs (t @ ''__exact'') (VBool True)) ts)"
  by (induction ts) (simp_all add: make_condition_nonempty)

lemma q_holds_foldl_and:
  "q_holds atom (foldl Q_and c cs) = (q_holds atom c \<and> (\<forall>x\<in>set cs. q_holds atom x))"
  by (induction cs arbitrary: c) auto

lemma q_holds_foldl_and_leaves:
  assumes "\<And>x. q_holds atom (f x) = atom (f x)"
  shows "q_holds atom (foldl Q_and (f t) (map f r)) = (\<forall>x\<in>set (t # r). atom (f x))"
  by (simp add: q_holds_foldl_and assms)

lemma filter_queryset_tokens:
  assumes "get_conditional flt ms req queryset v = Inr (Some tokens)"
    and "tokens \<noteq> []" and "\<forall>t\<in>set tokens. t \<noteq> []"
  shows "ConditionalFilter_filter_queryset flt ms req queryset v =
     Inr (qs_filter queryset
       (foldl Q_and
          (if hd (hd tokens) = CHR ''-'' then Q_kwargs (tl (hd tokens) @ ''__exact'') (VBool False)
           else Q_kwargs (hd tokens @ ''__exact'') (VBool True))
          (map (\<lambda>t. if hd t = CHR ''-'' then Q_kwargs (tl t @ ''__exact'') (VBool False)
                    else Q_kwargs (t @ ''__exact'') (VBool True)) (tl tokens))))"
proof -
  obtain t r where tr: "tokens = t # r" using assms(2) by (cases tokens) auto
  define f where
    "f = (\<lambda>t. if hd t = CHR ''-'' then Q_kwargs (tl t @ ''__exact'') (VBool False)
              else Q_kwargs (t @ ''__exact'') (VBool True))"
  have nd: "\<And>x. \<not> has_dict_child (f x)"
    by (simp add: f_def)
  have cm: "collect (map make_condition tokens) = Inr (map f tokens)"
    using collect_make_condition [OF assms(3)] by (simp only: f_def)
  have "\<not> has_dict_child (foldl Q_and (f t) (map f r))"
    by (simp add: has_dict_child_foldl_and nd)
  then have "ConditionalFilter_filter_queryset flt ms req queryset v =
     Inr (qs_filter queryset (foldl Q_and (f t) (map f r)))"
    using assms(1) cm
    by (simp add: ConditionalFilter_filter_queryset_def reduce_def tr queryset_filter_def)
  then show ?thesis
    by (simp only: tr f_def list.sel)
qed

lemma term_valid_iff:
  "term_valid names t = ((if t \<noteq> [] \<and> hd t = CHR ''-'' then tl t else t) \<in> set names)"
  by (cases t) (simp_all add: term_valid_def)

lemma term_valid_fun:
  "term_valid (map fst vf) =
     (\<lambda>t. (if t \<noteq> [] \<and> hd t = CHR ''-'' then tl t else t) \<in> fst ` set vf)"
  by (rule ext) (simp add: term_valid_iff)

lemma filter_queryset_no_tokens:
  assumes "get_conditional flt ms req queryset v = Inr None
         \<or> get_conditional flt ms req queryset v = Inr (Some [])"
  shows "ConditionalFilter_filter_queryset flt ms req queryset v = Inr queryset"
  using assms by (auto simp: ConditionalFilter_filter_queryset_def)



lemma flags_valid:
  "get_valid_fields ConditionalFilter example_models items flags_view =
     Inr [(''active'', Label ''active''), (''verified'', Label ''verified'')]"
  by (simp add: get_valid_fields_def ConditionalFilter_def flags_view_def bare_view_def
        fields_item_entry_def)

lemma split_example:
  "map strip (split_comma ''active,-verified,bogus'') = [''active'', ''-verified'', ''bogus'']"
  by (simp add: split_comma_def strip_def is_space_def)

lemma flags_conditional:
  "get_conditional ConditionalFilter example_models
     \<lparr>query_params = [''conditional'' \<mapsto> ''active,-verified,bogus'']\<rparr> items flags_view
   = Inr (Some [''active'', ''-verified''])"
  by (simp add: get_conditional_def remove_invalid_fields_def flags_valid split_example
        term_valid_def) (simp add: ConditionalFilter_def)

text \<open>
  Claim C2. When the tokens the filter works with are \<open>tokens\<close> (none of them empty),
  \<open>ConditionalFilter.filter_queryset\<close> applies one filter, and that filter holds
  exactly when every token's predicate holds: \<open>name__exact = False\<close> for a token
  \<open>-name\<close>, \<open>token__exact = True\<close> for a token without the prefix. With the
  permitted fields \<open>active\<close> and \<open>verified\<close>, the query
  \<open>conditional=active,-verified,bogus\<close> filters by
  \<open>active__exact = True AND verified__exact = False\<close>; \<open>bogus\<close> is ignored.
\<close>

theorem conditional_tokens_predicate:
  "(get_conditional flt ms req queryset v = Inr (Some tokens) \<longrightarrow> tokens \<noteq> [] \<longrightarrow>
    (\<forall>t\<in>set tokens. t \<noteq> []) \<longrightarrow>
    (\<exists>cond. ConditionalFilter_filter_queryset flt ms req queryset v =
               Inr (qs_filter queryset cond) \<and>
       (\<forall>atom. q_holds atom cond =
          (\<forall>t\<in>set tokens.
             atom (if hd t = CHR ''-'' then Q_kwargs (tl t @ ''__exact'') (VBool False)
                   else Q_kwargs (t @ ''__exact'') (VBool True))))))
   \<and> ConditionalFilter_filter_queryset ConditionalFilter example_models
        \<lparr>query_params = [''conditional'' \<mapsto> ''active,-verified,bogus'']\<rparr> items flags_view
      = Inr (qs_filter items
               (Q_and (Q_kwargs ''active__exact'' (VBool True))
                      (Q_kwargs ''verified__exact'' (VBool False))))"
proof (intro conjI impI)
  assume a: "get_conditional flt ms req queryset v = Inr (Some tokens)"
    and b: "tokens \<noteq> []" and c: "\<forall>t\<in>set tokens. t \<noteq> []"
  obtain t r where tr: "tokens = t # r" using b by (cases tokens) auto
  define f where "f = (\<lambda>t. if hd t = CHR ''-'' then Q_kwargs (tl t @ ''__exact'') (VBool False)
                else Q_kwargs (t @ ''__exact'') (VBool True))"
  have leaf: "\<And>atom x. q_holds atom (f x) = atom (f x)" by (simp add: f_def)
  have sem: "\<And>atom. q_holds atom (foldl Q_and (f t) (map f r)) = (\<forall>x\<in>set tokens. atom (f x))"
    unfolding tr by (rule q_holds_foldl_and_leaves) (rule leaf)
  have res: "ConditionalFilter_filter_queryset flt ms req queryset v =
               Inr (qs_filter queryset (foldl Q_and (f t) (map f r)))"
    using filter_queryset_tokens [OF a b c] unfolding tr f_def by simp
  have "ConditionalFilter_filter_queryset flt ms req queryset v =
               Inr (qs_filter queryset (foldl Q_and (f t) (map f r))) \<and>
       (\<forall>atom. q_holds atom (foldl Q_and (f t) (map f r)) = (\<forall>t\<in>set tokens. atom (f t)))"
    using res sem by (intro conjI allI)
  then have "\<exists>cond. ConditionalFilter_filter_queryset flt ms req queryset v =
               Inr (qs_filter queryset cond) \<and>
       (\<forall>atom. q_holds atom cond = (\<forall>t\<in>set tokens. atom (f t)))"
    by (rule exI)
  then show "\<exists>cond. ConditionalFilter_filter_queryset flt ms req queryset v =
               Inr (qs_filter queryset cond) \<and>
       (\<forall>atom. q_holds atom cond =
          (\<forall>t\<in>set tokens.
             atom (if hd t = CHR ''-'' then Q_kwargs (tl t @ ''__exact'') (VBool False)
                   else Q_kwargs (t @ ''__exact'') (VBool True))))"
    unfolding f_def .
next
  show "ConditionalFilter_filter_queryset ConditionalFilter example_models
        \<lparr>query_params = [''conditional'' \<mapsto> ''active,-verified,bogus'']\<rparr> items flags_view
      = Inr (qs_filter items
               (Q_and (Q_kwargs ''active__exact'' (VBool True))
                      (Q_kwargs ''verified__exact'' (VBool False))))"
    by (simp add: ConditionalFilter_filter_queryset_def get_conditional_def
          ConditionalFilter_def remove_invalid_fields_def get_valid_fields_def flags_view_def
          bare_view_def fields_item_entry_def term_valid_def split_comma_def strip_def
          is_space_def reduce_def queryset_filter_def)
qed

theorem conditional_tokens_predicate_witness:
  "\<exists>cond. ConditionalFilter_filter_queryset ConditionalFilter example_models
        \<lparr>query_params = [''conditional'' \<mapsto> ''active,-verified,bogus'']\<rparr> items flags_view
       = Inr (qs_filter items cond) \<and>
     (\<forall>atom. q_holds atom cond =
        (atom (Q_kwargs ''active__exact'' (VBool True)) \<and>
         atom (Q_kwargs ''verified__exact'' (VBool False))))"
proof -
  note inst = conditional_tokens_predicate [of ConditionalFilter example_models
      "\<lparr>query_params = [''conditional'' \<mapsto> ''active,-verified,bogus'']\<rparr>" items flags_view
      "[''active'', ''-verified'']", THEN conjunct1, rule_format, OF flags_conditional]
  have "\<exists>cond. ConditionalFilter_filter_queryset ConditionalFilter example_models
        \<lparr>query_params = [''conditional'' \<mapsto> ''active,-verified,bogus'']\<rparr> items flags_view
       = Inr (qs_filter items cond) \<and>
     (\<forall>atom. q_holds atom cond =
        (\<forall>t\<in>set [''active'', ''-verified''].
             atom (if hd t = CHR ''-'' then Q_kwargs (tl t @ ''__exact'') (VBool False)
                   else Q_kwargs (t @ ''__exact'') (VBool True))))"
    by (rule inst) auto
  then show ?thesis by simp
qed

text \<open>
  Claim C3. Once the permitted fields are resolved, \<open>remove_invalid_fields\<close> raises
  nothing and keeps, in order, exactly the tokens whose name, after one leading \<open>-\<close>
  is removed, is a permitted field; every other token is dropped. For a non-empty
  \<open>conditional\<close> parameter, \<open>get_conditional\<close> goes on with the kept tokens, and
  with the view's default when none is kept.
\<close>

theorem invalid_tokens_dropped:
  assumes "get_valid_fields flt ms queryset v = Inr vf"
  shows "remove_invalid_fields flt ms queryset toks v =
           Inr (filter (\<lambda>t. (if t \<noteq> [] \<and> hd t = CHR ''-'' then tl t else t) \<in> fst ` set vf) toks)
   \<and> (query_params req (conditional_param flt) = Some params \<longrightarrow> params \<noteq> [] \<longrightarrow>
        get_conditional flt ms req queryset v =
          Inr (let kept = filter (\<lambda>t. (if t \<noteq> [] \<and> hd t = CHR ''-'' then tl t else t)
                                        \<in> fst ` set vf) (map strip (split_comma params))
               in if kept = [] then get_default_conditional v else Some kept))"
  using assms
  unfolding remove_invalid_fields_def get_conditional_def term_valid_fun Let_def
  by simp

theorem invalid_tokens_dropped_witness:
  "remove_invalid_fields ConditionalFilter example_models items
     [''active'', ''-verified'', ''bogus'', ''-bogus'', '''', ''-''] flags_view
     = Inr [''active'', ''-verified'']
   \<and> get_conditional ConditionalFilter example_models
       \<lparr>query_params = [''conditional'' \<mapsto> ''active,-verified,bogus'']\<rparr> items flags_view
     = Inr (Some [''active'', ''-verified''])"
proof -
  note inst = invalid_tokens_dropped [OF flags_valid,
      of "[''active'', ''-verified'', ''bogus'', ''-bogus'', '''', ''-'']"
         "\<lparr>query_params = [''conditional'' \<mapsto> ''active,-verified,bogus'']\<rparr>"
         "''active,-verified,bogus''"]
  have p: "query_params \<lparr>query_params = [''conditional'' \<mapsto> ''active,-verified,bogus'']\<rparr>
             (conditional_param ConditionalFilter) = Some ''active,-verified,bogus''"
    by (simp add: ConditionalFilter_def)
  from inst p show ?thesis
    by (simp add: split_example)
qed

text \<open>
  Claim C4. When the \<open>conditional\<close> parameter is absent or empty, or when the
  permitted fields are resolved and every supplied token is invalid,
  \<open>get_conditional\<close> returns the view's default conditional: the tuple the view
  declares, or the one-element tuple of the string it declares. \<open>filter_queryset\<close>
  then filters by that default, with the AND of one predicate per default token; when
  the view declares no default, or an empty one, it returns the queryset as it was.
\<close>

theorem fallback_to_default_conditional:
  assumes "query_params req (conditional_param flt) = None
         \<or> query_params req (conditional_param flt) = Some []
         \<or> (\<exists>params vf. query_params req (conditional_param flt) = Some params
              \<and> get_valid_fields flt ms queryset v = Inr vf
              \<and> (\<forall>t\<in>set (map strip (split_comma params)). \<not> term_valid (map fst vf) t))"
  shows "get_conditional flt ms req queryset v = Inr (get_default_conditional v)
   \<and> (view_conditional v = None \<longrightarrow>
        ConditionalFilter_filter_queryset flt ms req queryset v = Inr queryset)
   \<and> (view_conditional v = Some (CondStr s) \<longrightarrow> get_default_conditional v = Some [s])
   \<and> (view_conditional v = Some (CondTuple ts) \<longrightarrow> get_default_conditional v = Some ts)
   \<and> (get_default_conditional v = Some [] \<longrightarrow>
        ConditionalFilter_filter_queryset flt ms req queryset v = Inr queryset)
   \<and> (get_default_conditional v = Some d \<longrightarrow> d \<noteq> [] \<longrightarrow> (\<forall>t\<in>set d. t \<noteq> []) \<longrightarrow>
        ConditionalFilter_filter_queryset flt ms req queryset v =
          Inr (qs_filter queryset
            (foldl Q_and
               (if hd (hd d) = CHR ''-'' then Q_kwargs (tl (hd d) @ ''__exact'') (VBool False)
                else Q_kwargs (hd d @ ''__exact'') (VBool True))
               (map (\<lambda>t. if hd t = CHR ''-'' then Q_kwargs (tl t @ ''__exact'') (VBool False)
                         else Q_kwargs (t @ ''__exact'') (VBool True)) (tl d)))))"
proof -
  have gc: "get_conditional flt ms req queryset v = Inr (get_default_conditional v)"
    using assms
    by (auto simp: get_conditional_def remove_invalid_fields_def filter_empty_conv)
  have none: "view_conditional v = None \<longrightarrow>
        ConditionalFilter_filter_queryset flt ms req queryset v = Inr queryset"
    using gc by (simp add: ConditionalFilter_filter_queryset_def get_default_conditional_def)
  have str: "view_conditional v = Some (CondStr s) \<longrightarrow> get_default_conditional v = Some [s]"
    by (simp add: get_default_conditional_def)
  have tup: "view_conditional v = Some (CondTuple ts) \<longrightarrow> get_default_conditional v = Some ts"
    by (simp add: get_default_conditional_def)
  have nil: "get_default_conditional v = Some [] \<longrightarrow>
        ConditionalFilter_filter_queryset flt ms req queryset v = Inr queryset"
    using gc by (simp add: filter_queryset_no_tokens)
  have dflt: "get_default_conditional v = Some d \<longrightarrow> d \<noteq> [] \<longrightarrow> (\<forall>t\<in>set d. t \<noteq> []) \<longrightarrow>
        ConditionalFilter_filter_queryset flt ms req queryset v =
          Inr (qs_filter queryset
            (foldl Q_and
               (if hd (hd d) = CHR ''-'' then Q_kwargs (tl (hd d) @ ''__exact'') (VBool False)
                else Q_kwargs (hd d @ ''__exact'') (VBool True))
               (map (\<lambda>t. if hd t = CHR ''-'' then Q_kwargs (tl t @ ''__exact'') (VBool False)
                         else Q_kwargs (t @ ''__exact'') (VBool True)) (tl d))))"
  proof (intro impI)
    assume d: "get_default_conditional v = Some d" and ne: "d \<noteq> []"
      and toks: "\<forall>t\<in>set d. t \<noteq> []"
    from gc d have "get_conditional flt ms req queryset v = Inr (Some d)" by simp
    from filter_queryset_tokens [OF this ne toks]
    show "ConditionalFilter_filter_queryset flt ms req queryset v =
          Inr (qs_filter queryset
            (foldl Q_and
               (if hd (hd d) = CHR ''-'' then Q_kwargs (tl (hd d) @ ''__exact'') (VBool False)
                else Q_kwargs (hd d @ ''__exact'') (VBool True))
               (map (\<lambda>t. if hd t = CHR ''-'' then Q_kwargs (tl t @ ''__exact'') (VBool False)
                         else Q_kwargs (t @ ''__exact'') (VBool True)) (tl d))))" .
  qed
  from gc none str tup nil dflt show ?thesis by (intro conjI)
qed

theorem fallback_to_default_conditional_witness:
  "get_conditional ConditionalFilter example_models
       \<lparr>query_params = [''conditional'' \<mapsto> ''bogus, ,-'']\<rparr> items
       (flags_view\<lparr>view_conditional := Some (CondStr ''-active'')\<rparr>)
     = Inr (Some [''-active''])
   \<and> ConditionalFilter_filter_queryset ConditionalFilter example_models
       \<lparr>query_params = [''conditional'' \<mapsto> ''bogus, ,-'']\<rparr> items
       (flags_view\<lparr>view_conditional := Some (CondStr ''-active'')\<rparr>)
     = Inr (qs_filter items (Q_kwargs ''active__exact'' (VBool False)))
   \<and> ConditionalFilter_filter_queryset ConditionalFilter example_models
       \<lparr>query_params = Map.empty\<rparr> items
       (flags_view\<lparr>view_conditional := Some (CondTuple [''active'', ''-verified''])\<rparr>)
     = Inr (qs_filter items
              (Q_and (Q_kwargs ''active__exact'' (VBool True))
                     (Q_kwargs ''verified__exact'' (VBool False))))
   \<and> ConditionalFilter_filter_queryset ConditionalFilter example_models
       \<lparr>query_params = [''conditional'' \<mapsto> ''bogus, ,-'']\<rparr> items flags_view = Inr items"
proof -
  let ?req = "\<lparr>query_params = [''conditional'' \<mapsto> ''bogus, ,-'']\<rparr>"
  let ?none = "\<lparr>query_params = Map.empty\<rparr>"
  let ?v = "flags_view\<lparr>view_conditional := Some (CondStr ''-active'')\<rparr>"
  let ?w = "flags_view\<lparr>view_conditional := Some (CondTuple [''active'', ''-verified''])\<rparr>"
  have cp: "conditional_param ConditionalFilter = ''conditional''"
    by (simp add: ConditionalFilter_def)
  have vf: "get_valid_fields ConditionalFilter example_models items ?v =
     Inr [(''active'', Label ''active''), (''verified'', Label ''verified'')]"
    by (simp add: get_valid_fields_def ConditionalFilter_def flags_view_def bare_view_def
        fields_item_entry_def)
  have h1: "query_params ?req (conditional_param ConditionalFilter) = None
         \<or> query_params ?req (conditional_param ConditionalFilter) = Some []
         \<or> (\<exists>params vf. query_params ?req (conditional_param ConditionalFilter) = Some params
              \<and> get_valid_fields ConditionalFilter example_models items ?v = Inr vf
              \<and> (\<forall>t\<in>set (map strip (split_comma params)). \<not> term_valid (map fst vf) t))"
    by (simp add: vf cp split_comma_def strip_def is_space_def term_valid_def)
  have h2: "query_params ?none (conditional_param ConditionalFilter) = None
         \<or> query_params ?none (conditional_param ConditionalFilter) = Some []
         \<or> (\<exists>params vf. query_params ?none (conditional_param ConditionalFilter) = Some params
              \<and> get_valid_fields ConditionalFilter example_models items ?w = Inr vf
              \<and> (\<forall>t\<in>set (map strip (split_comma params)). \<not> term_valid (map fst vf) t))"
    by simp
  have h3: "query_params ?req (conditional_param ConditionalFilter) = None
         \<or> query_params ?req (conditional_param ConditionalFilter) = Some []
         \<or> (\<exists>params vf. query_params ?req (conditional_param ConditionalFilter) = Some params
              \<and> get_valid_fields ConditionalFilter example_models items flags_view = Inr vf
              \<and> (\<forall>t\<in>set (map strip (split_comma params)). \<not> term_valid (map fst vf) t))"
    by (simp add: flags_valid cp split_comma_def strip_def is_space_def term_valid_def)
  have dv: "get_default_conditional ?v = Some [''-active'']"
    and dw: "get_default_conditional ?w = Some [''active'', ''-verified'']"
    and dn: "view_conditional flags_view = None"
    by (simp_all add: get_default_conditional_def flags_view_def bare_view_def)
  note i1 = fallback_to_default_conditional [OF h1, where d = "[''-active'']"]
  note i2 = fallback_to_default_conditional [OF h2, where d = "[''active'', ''-verified'']"]
  note i3 = fallback_to_default_conditional [OF h3]
  from i1 dv have a: "get_conditional ConditionalFilter example_models ?req items ?v
                        = Inr (Some [''-active''])"
    by simp
  from i1 dv have b: "ConditionalFilter_filter_queryset ConditionalFilter example_models
       ?req items ?v = Inr (qs_filter items (Q_kwargs ''active__exact'' (VBool False)))"
    by simp
  from i2 dw have c: "ConditionalFilter_filter_queryset ConditionalFilter example_models
       ?none items ?w
     = Inr (qs_filter items
              (Q_and (Q_kwargs ''active__exact'' (VBool True))
                     (Q_kwargs ''verified__exact'' (VBool False))))"
    by simp
  from i3 dn have d: "ConditionalFilter_filter_queryset ConditionalFilter example_models
       ?req items flags_view = Inr items"
    by simp
  from a b c d show ?thesis by (intro conjI)
qed

text \<open>
  Claim C6. When neither the view nor the filter class gives \<open>conditional_fields\<close>,
  and the view yields no serializer class (its \<open>get_serializer_class\<close> raises
  \<open>AssertionError\<close> or returns \<open>None\<close>, or it has no such method and no
  \<open>serializer_class\<close>), \<open>get_valid_fields\<close> raises \<open>ImproperlyConfigured\<close>
  with a message that starts \<open>Cannot use\<close> followed by the filter's class name.
  The error is not swallowed: a request that supplies the parameter gets it from
  \<open>filter_queryset\<close>.
\<close>

theorem missing_serializer_improperly_configured:
  assumes "view_conditional_fields v = Some None
         \<or> (view_conditional_fields v = None \<and> conditional_fields flt = None)"
    and "view_get_serializer_class v = Some Raises_AssertionError
       \<or> view_get_serializer_class v = Some (Returns None)
       \<or> (view_get_serializer_class v = None \<and> view_serializer_class v = None)"
  shows "get_valid_fields flt ms queryset v =
           Inl (ImproperlyConfigured (improperly_configured_msg (class_name flt)))
   \<and> (\<exists>rest. improperly_configured_msg (class_name flt) =
               ''Cannot use '' @ class_name flt @ rest)
   \<and> (query_params req (conditional_param flt) = Some params \<longrightarrow> params \<noteq> [] \<longrightarrow>
        ConditionalFilter_filter_queryset flt ms req queryset v =
          Inl (ImproperlyConfigured (improperly_configured_msg (class_name flt))))"
proof -
  have none: "resolve_serializer_class v = None"
    using assms(2) by (auto simp: resolve_serializer_class_def)
  have gv: "get_valid_fields flt ms queryset v =
           Inl (ImproperlyConfigured (improperly_configured_msg (class_name flt)))"
    using assms(1) none by (auto simp: get_valid_fields_def get_default_valid_fields_def)
  have msg: "\<exists>rest. improperly_configured_msg (class_name flt) =
               ''Cannot use '' @ class_name flt @ rest"
    unfolding improperly_configured_msg_def by blast
  show ?thesis
    using gv msg
    by (simp add: ConditionalFilter_filter_queryset_def get_conditional_def
          remove_invalid_fields_def)
qed

theorem missing_serializer_improperly_configured_witness:
  "get_valid_fields ConditionalFilter example_models items bare_view =
     Inl (ImproperlyConfigured (improperly_configured_msg ''ConditionalFilter''))
   \<and> ConditionalFilter_filter_queryset ConditionalFilter example_models
       \<lparr>query_params = [''conditional'' \<mapsto> ''active'']\<rparr> items bare_view =
     Inl (ImproperlyConfigured (improperly_configured_msg ''ConditionalFilter''))
   \<and> get_valid_fields ConditionalFilter example_models items
       (bare_view\<lparr>view_get_serializer_class := Some Raises_AssertionError,
                  view_serializer_class := Some item_serializer\<rparr>) =
     Inl (ImproperlyConfigured (improperly_configured_msg ''ConditionalFilter''))"
proof -
  let ?v = "bare_view\<lparr>view_get_serializer_class := Some Raises_AssertionError,
                  view_serializer_class := Some item_serializer\<rparr>"
  have a1: "view_conditional_fields bare_view = Some None
         \<or> (view_conditional_fields bare_view = None \<and> conditional_fields ConditionalFilter = None)"
    by (simp add: bare_view_def ConditionalFilter_def)
  have a2: "view_get_serializer_class bare_view = Some Raises_AssertionError
       \<or> view_get_serializer_class bare_view = Some (Returns None)
       \<or> (view_get_serializer_class bare_view = None \<and> view_serializer_class bare_view = None)"
    by (simp add: bare_view_def)
  have b1: "view_conditional_fields ?v = Some None
         \<or> (view_conditional_fields ?v = None \<and> conditional_fields ConditionalFilter = None)"
    by (simp add: bare_view_def ConditionalFilter_def)
  have b2: "view_get_serializer_class ?v = Some Raises_AssertionError
       \<or> view_get_serializer_class ?v = Some (Returns None)
       \<or> (view_get_serializer_class ?v = None \<and> view_serializer_class ?v = None)"
    by simp
  have cn: "class_name ConditionalFilter = ''ConditionalFilter''"
    and cp: "conditional_param ConditionalFilter = ''conditional''"
    by (simp_all add: ConditionalFilter_def)
  from missing_serializer_improperly_configured [OF a1 a2, of example_models items
             "\<lparr>query_params = [''conditional'' \<mapsto> ''active'']\<rparr>" "''active''"]
       missing_serializer_improperly_configured [OF b1 b2, of example_models items
             "\<lparr>query_params = [''conditional'' \<mapsto> ''active'']\<rparr>" "''active''"]
  show ?thesis
    unfolding cn cp by simp
qed

text \<open>
  Claim C7, as the specification states it: without an explicit allow-list the
  permitted fields are the serializer's declared fields that are not write-only and
  whose source is not \<open>*\<close>. The serializer field \<open>full_name\<close> is neither, and it
  is not permitted: its source is a property of the model class.
\<close>

theorem serializer_property_counterexample:
  "get_valid_fields ConditionalFilter example_models items
     (bare_view\<lparr>view_serializer_class := Some item_serializer\<rparr>)
     = Inr [(''name'', Label ''Name''), (''owner__username'', NoLabel)]
   \<and> (''full_name'', full_name_field) \<in> set item_serializer
   \<and> \<not> write_only full_name_field \<and> source full_name_field \<noteq> ''*''"
  by (simp add: get_valid_fields_def get_default_valid_fields_def resolve_serializer_class_def
        ConditionalFilter_def bare_view_def item_serializer_def full_name_field_def
        serializer_field_allowed_def serializer_field_entry_def model_property_names_def
        example_models_def items_def item_model_def replace_dot_def LOOKUP_SEP_def)

text \<open>
  Claim C7, amended. An explicit list of \<open>conditional_fields\<close>, on the view or else on
  the filter class, gives the permitted names as they are listed. With
  \<open>conditional_fields\<close> \<open>None\<close> and a serializer, the permitted names come from the
  serializer fields that are not write-only, whose source is not \<open>*\<close> and whose
  source is not a property of the model class (\<open>pk\<close> apart); each is named by its
  source with \<open>.\<close> replaced by \<open>__\<close>, or by its field name when that is empty.
  The value \<open>'__all__'\<close> gives the names of the model's fields followed by the
  queryset's annotations.
\<close>

theorem valid_fields_precedence:
  "((view_conditional_fields v = Some (Some (FieldsList its))
     \<or> (view_conditional_fields v = None \<and> conditional_fields flt = Some (FieldsList its)))
    \<longrightarrow> (\<exists>vf. get_valid_fields flt ms queryset v = Inr vf \<and>
              map fst vf = map (\<lambda>item. case item of ItemStr s \<Rightarrow> s | ItemPair n l \<Rightarrow> n) its))
   \<and> ((view_conditional_fields v = Some None
        \<or> (view_conditional_fields v = None \<and> conditional_fields flt = None))
       \<longrightarrow> resolve_serializer_class v = Some ser
       \<longrightarrow> (\<exists>vf. get_valid_fields flt ms queryset v = Inr vf \<and>
              map fst vf =
                map (\<lambda>(field_name, f). if replace_dot (source f) = [] then field_name
                                        else replace_dot (source f))
                  (filter (\<lambda>(field_name, f). \<not> write_only f \<and> source f \<noteq> ''*'' \<and>
                              source f \<notin> set (property_attrs (ms (qs_model queryset))) - {''pk''})
                     ser)))
   \<and> ((view_conditional_fields v = Some (Some (FieldsStr ''__all__''))
        \<or> (view_conditional_fields v = None
            \<and> conditional_fields flt = Some (FieldsStr ''__all__'')))
       \<longrightarrow> (\<exists>vf. get_valid_fields flt ms queryset v = Inr vf \<and>
              map fst vf = map fst (meta_fields (ms (qs_model queryset)))
                           @ qs_annotations queryset))"
proof (intro conjI impI)
  assume "view_conditional_fields v = Some (Some (FieldsList its))
     \<or> (view_conditional_fields v = None \<and> conditional_fields flt = Some (FieldsList its))"
  then have "get_valid_fields flt ms queryset v = Inr (map fields_item_entry its)"
    by (auto simp: get_valid_fields_def)
  moreover have "map fst (map fields_item_entry its)
      = map (\<lambda>item. case item of ItemStr s \<Rightarrow> s | ItemPair n l \<Rightarrow> n) its"
    by (simp add: fields_item_entry_def o_def split: fields_item.splits cong: map_cong)
  ultimately show "\<exists>vf. get_valid_fields flt ms queryset v = Inr vf \<and>
              map fst vf = map (\<lambda>item. case item of ItemStr s \<Rightarrow> s | ItemPair n l \<Rightarrow> n) its"
    by simp
next
  assume a: "view_conditional_fields v = Some None
        \<or> (view_conditional_fields v = None \<and> conditional_fields flt = None)"
    and r: "resolve_serializer_class v = Some ser"
  let ?props = "model_property_names (ms (qs_model queryset))"
  have gv: "get_valid_fields flt ms queryset v =
      Inr (map serializer_field_entry
             (filter (\<lambda>nf. serializer_field_allowed ?props (snd nf)) ser))"
    using a r by (auto simp: get_valid_fields_def get_default_valid_fields_def)
  have props: "set ?props = set (property_attrs (ms (qs_model queryset))) - {''pk''}"
    by (auto simp: model_property_names_def)
  have flt: "(\<lambda>nf. serializer_field_allowed ?props (snd nf))
      = (\<lambda>(field_name, f). \<not> write_only f \<and> source f \<noteq> ''*'' \<and>
                              source f \<notin> set (property_attrs (ms (qs_model queryset))) - {''pk''})"
    by (rule ext) (simp add: serializer_field_allowed_def props split_beta)
  have ent: "fst \<circ> serializer_field_entry
      = (\<lambda>(field_name, f). if replace_dot (source f) = [] then field_name
                                        else replace_dot (source f))"
    by (rule ext) (simp add: serializer_field_entry_def Let_def split_beta)
  show "\<exists>vf. get_valid_fields flt ms queryset v = Inr vf \<and>
              map fst vf =
                map (\<lambda>(field_name, f). if replace_dot (source f) = [] then field_name
                                        else replace_dot (source f))
                  (filter (\<lambda>(field_name, f). \<not> write_only f \<and> source f \<noteq> ''*'' \<and>
                              source f \<notin> set (property_attrs (ms (qs_model queryset))) - {''pk''})
                     ser)"
    unfolding gv flt by (simp add: ent)
next
  assume "view_conditional_fields v = Some (Some (FieldsStr ''__all__''))
        \<or> (view_conditional_fields v = None
            \<and> conditional_fields flt = Some (FieldsStr ''__all__''))"
  then show "\<exists>vf. get_valid_fields flt ms queryset v = Inr vf \<and>
              map fst vf = map fst (meta_fields (ms (qs_model queryset)))
                           @ qs_annotations queryset"
    by (auto simp: get_valid_fields_def o_def split_beta)
qed

theorem valid_fields_precedence_witness:
  "(\<exists>vf. get_valid_fields ConditionalFilter example_models items flags_view = Inr vf \<and>
          map fst vf = [''active'', ''verified''])
   \<and> (\<exists>vf. get_valid_fields ConditionalFilter example_models items
              (bare_view\<lparr>view_serializer_class := Some item_serializer\<rparr>) = Inr vf \<and>
          map fst vf = [''name'', ''owner__username''])
   \<and> (\<exists>vf. get_valid_fields ConditionalFilter example_models items
              (bare_view\<lparr>view_conditional_fields := Some (Some (FieldsStr ''__all__''))\<rparr>)
            = Inr vf \<and>
          map fst vf = [''id'', ''name'', ''code'', ''active'', ''verified'', ''owner'',
                        ''item_count''])"
proof -
  let ?sv = "bare_view\<lparr>view_serializer_class := Some item_serializer\<rparr>"
  let ?av = "bare_view\<lparr>view_conditional_fields := Some (Some (FieldsStr ''__all__''))\<rparr>"
  have a: "view_conditional_fields flags_view
             = Some (Some (FieldsList [ItemStr ''active'', ItemStr ''verified'']))
     \<or> (view_conditional_fields flags_view = None \<and>
         conditional_fields ConditionalFilter
           = Some (FieldsList [ItemStr ''active'', ItemStr ''verified'']))"
    by (simp add: flags_view_def)
  have b1: "view_conditional_fields ?sv = Some None
        \<or> (view_conditional_fields ?sv = None \<and> conditional_fields ConditionalFilter = None)"
    by (simp add: bare_view_def ConditionalFilter_def)
  have b2: "resolve_serializer_class ?sv = Some item_serializer"
    by (simp add: resolve_serializer_class_def bare_view_def)
  have c: "view_conditional_fields ?av = Some (Some (FieldsStr ''__all__''))
        \<or> (view_conditional_fields ?av = None
            \<and> conditional_fields ConditionalFilter = Some (FieldsStr ''__all__''))"
    by simp
  note p1 = valid_fields_precedence [where v = flags_view and flt = ConditionalFilter and ms = example_models
      and queryset = items and its = "[ItemStr ''active'', ItemStr ''verified'']",
      THEN conjunct1, rule_format, OF a]
  note p2 = valid_fields_precedence [where v = ?sv and flt = ConditionalFilter and ms = example_models
      and queryset = items and ser = item_serializer,
      THEN conjunct2, THEN conjunct1, rule_format, OF b1 b2]
  note p3 = valid_fields_precedence [where v = ?av and flt = ConditionalFilter and ms = example_models
      and queryset = items, THEN conjunct2, THEN conjunct2, rule_format, OF c]
  have e2: "map (\<lambda>(field_name, f). if replace_dot (source f) = [] then field_name
                                        else replace_dot (source f))
              (filter (\<lambda>(field_name, f). \<not> write_only f \<and> source f \<noteq> ''*'' \<and>
                  source f \<notin> set (property_attrs (example_models (qs_model items))) - {''pk''})
                 item_serializer)
            = [''name'', ''owner__username'']"
    by (simp add: item_serializer_def full_name_field_def example_models_def items_def
          item_model_def replace_dot_def LOOKUP_SEP_def)
  have e3: "map fst (meta_fields (example_models (qs_model items))) @ qs_annotations items
            = [''id'', ''name'', ''code'', ''active'', ''verified'', ''owner'', ''item_count'']"
    by (simp add: example_models_def items_def item_model_def)
  from p1 have q1: "\<exists>vf. get_valid_fields ConditionalFilter example_models items flags_view
                        = Inr vf \<and> map fst vf = [''active'', ''verified'']"
    by simp
  from p2 have q2: "\<exists>vf. get_valid_fields ConditionalFilter example_models items ?sv = Inr vf \<and>
          map fst vf = [''name'', ''owner__username'']"
    unfolding e2 .
  from p3 have q3: "\<exists>vf. get_valid_fields ConditionalFilter example_models items ?av = Inr vf \<and>
          map fst vf = [''id'', ''name'', ''code'', ''active'', ''verified'', ''owner'',
                        ''item_count'']"
    unfolding e3 .
  from q1 q2 q3 show ?thesis by (intro conjI)
qed




end
